theory Spec2Isabelle
  imports Main
begin

section \<open>Public types (src/crypto/suites.ts, lines 8-10 and 16-44)\<close>

text \<open>
  The three string-literal union types of the source are enumerations; each tag keeps
  the string it stands for, because the factory's error message interpolates it.
\<close>

datatype SupportedCurve = Secp256k1 | Ed25519

datatype SupportedScheme = ECDSA | Schnorr | EdDSA

datatype PublicKeyFormat = Compressed | Uncompressed | SchnorrFormat

fun curveTag :: "SupportedCurve \<Rightarrow> string" where
  "curveTag Secp256k1 = ''secp256k1''"
| "curveTag Ed25519 = ''ed25519''"

fun schemeTag :: "SupportedScheme \<Rightarrow> string" where
  "schemeTag ECDSA = ''ECDSA''"
| "schemeTag Schnorr = ''Schnorr''"
| "schemeTag EdDSA = ''EdDSA''"

fun formatTag :: "PublicKeyFormat \<Rightarrow> string" where
  "formatTag Compressed = ''compressed''"
| "formatTag Uncompressed = ''uncompressed''"
| "formatTag SchnorrFormat = ''schnorr''"

text \<open>
  What a call can throw. \<open>KeyValidationError\<close> is the class of
  src/errors/KeyValidationError.ts, carrying its message. Anything thrown inside the
  imported primitives library is a value of the library's own, of type \<open>'e\<close>; it reaches
  the caller as \<open>ProviderError\<close> unless the source catches it.
\<close>

datatype 'e error = KeyValidationError string | ProviderError 'e

text \<open>The optional argument \<open>options?: { outputFormat?: PublicKeyFormat }\<close>.\<close>

record options =
  outputFormat :: "PublicKeyFormat option"

text \<open>The returned object \<open>{ publicKey: string; format: PublicKeyFormat }\<close>.\<close>

record NormalizedKey =
  publicKey :: string
  format :: PublicKeyFormat

text \<open>The interface \<open>ICryptoSuite\<close>: an object of three methods.\<close>

record 'e ICryptoSuite =
  validateAndNormalizePublicKey :: "string \<Rightarrow> options option \<Rightarrow> 'e error + NormalizedKey"
  sign :: "string \<Rightarrow> string \<Rightarrow> 'e error + string"
  verify :: "string \<Rightarrow> string \<Rightarrow> string \<Rightarrow> 'e error + bool"

section \<open>The imported primitives (src/crypto/suites.ts, lines 1-3)\<close>

text \<open>
  \<open>bytesToHex\<close>, \<open>secp256k1\<close>, \<open>schnorr\<close> and \<open>ed25519\<close> are imported from the
  package @noble/curves, which is not part of the repository. The model takes them as a
  parameter: a record with one field per imported operation the source calls. A field
  returns \<open>Inl e\<close> where the library throws \<open>e\<close>. The types of curve points (\<open>'pt\<close> for
  secp256k1, \<open>'ept\<close> for ed25519), of an ECDSA signature object (\<open>'sg\<close>) and of byte
  arrays (\<open>'bytes\<close>) belong to the library and stay abstract. The three
  serializers (\<open>toBytes\<close>, \<open>toCompactHex\<close>, \<open>bytesToHex\<close>) are applied to values the
  library has just built and are taken to return. The field names are the source's
  call paths: \<open>secp256k1.Point.fromHex\<close> is \<open>secp256k1_Point_fromHex\<close>, and so on.
\<close>

record ('pt, 'ept, 'sg, 'bytes, 'e) provider =
  bytesToHex :: "'bytes \<Rightarrow> string"
  secp256k1_Point_fromHex :: "string \<Rightarrow> 'e + 'pt"
  secp256k1_Point_toBytes :: "'pt \<Rightarrow> bool \<Rightarrow> 'bytes"
  secp256k1_sign :: "string \<Rightarrow> string \<Rightarrow> 'e + 'sg"
  toCompactHex :: "'sg \<Rightarrow> string"
  secp256k1_verify :: "string \<Rightarrow> string \<Rightarrow> string \<Rightarrow> 'e + bool"
  schnorr_sign :: "string \<Rightarrow> string \<Rightarrow> 'e + 'bytes"
  schnorr_verify :: "string \<Rightarrow> string \<Rightarrow> string \<Rightarrow> 'e + bool"
  ed25519_Point_fromHex :: "string \<Rightarrow> 'e + 'ept"
  ed25519_sign :: "string \<Rightarrow> string \<Rightarrow> 'e + 'bytes"
  ed25519_verify :: "string \<Rightarrow> string \<Rightarrow> string \<Rightarrow> 'e + bool"

section \<open>String helpers of the language\<close>

text \<open>\<open>s.startsWith(p)\<close>.\<close>

definition startsWith :: "string \<Rightarrow> string \<Rightarrow> bool" where
  "startsWith s p = (take (length p) s = p)"

text \<open>A template literal's \<open>'${s}'\<close>: the string between two apostrophes.\<close>

definition quoted :: "string \<Rightarrow> string" where
  "quoted s = [CHR 0x27] @ s @ [CHR 0x27]"

text \<open>
  A template literal's \<open>${n}\<close> for a string length \<open>n\<close>: the decimal digits of a
  natural number, most significant first, with no leading zero.
\<close>

fun numberToString :: "nat \<Rightarrow> string" where
  "numberToString n =
     (if n < 10 then [''0123456789'' ! n]
      else numberToString (n div 10) @ [''0123456789'' ! (n mod 10)])"

declare numberToString.simps [simp del]

section \<open>The secp256k1/ECDSA suite (lines 48-92)\<close>

text \<open>Lines 53-64: the input format read off the length and the prefix.\<close>

definition inputFormat :: "string \<Rightarrow> PublicKeyFormat option" where
  "inputFormat pubKeyHex =
     (if length pubKeyHex = 66 \<and>
         (startsWith pubKeyHex ''02'' \<or> startsWith pubKeyHex ''03'')
      then Some Compressed
      else if length pubKeyHex = 128 \<or>
              (length pubKeyHex = 130 \<and> startsWith pubKeyHex ''04'')
      then Some Uncompressed
      else None)"

text \<open>Line 72: \<open>options?.outputFormat || 'compressed'\<close>.\<close>

definition desiredFormat :: "options option \<Rightarrow> PublicKeyFormat" where
  "desiredFormat opts =
     (case opts of
        None \<Rightarrow> Compressed
      | Some os \<Rightarrow> (case outputFormat os of None \<Rightarrow> Compressed | Some f \<Rightarrow> f))"

definition Ecdsa_validateAndNormalizePublicKey ::
  "('pt, 'ept, 'sg, 'bytes, 'e) provider \<Rightarrow> string \<Rightarrow> options option
     \<Rightarrow> 'e error + NormalizedKey" where
  "Ecdsa_validateAndNormalizePublicKey P pubKeyHex opts =
     (case inputFormat pubKeyHex of
        None \<Rightarrow>
          Inl (KeyValidationError
                 ''Invalid ECDSA public key format. Expected 33 or 65 bytes.'')
      | Some inFmt \<Rightarrow>
          (let shouldCompress = (desiredFormat opts = Compressed) in
           case secp256k1_Point_fromHex P
                  (if inFmt = Uncompressed \<and> length pubKeyHex = 128
                   then ''04'' @ pubKeyHex else pubKeyHex) of
             Inl e \<Rightarrow> Inl (ProviderError e)
           | Inr point \<Rightarrow>
               Inr \<lparr>publicKey =
                      bytesToHex P (secp256k1_Point_toBytes P point shouldCompress),
                    format = desiredFormat opts\<rparr>))"

definition Ecdsa_sign ::
  "('pt, 'ept, 'sg, 'bytes, 'e) provider \<Rightarrow> string \<Rightarrow> string \<Rightarrow> 'e error + string" where
  "Ecdsa_sign P privateKey messageHash =
     (case secp256k1_sign P messageHash privateKey of
        Inl e \<Rightarrow> Inl (ProviderError e)
      | Inr sg \<Rightarrow> Inr (toCompactHex P sg))"

definition Ecdsa_verify ::
  "('pt, 'ept, 'sg, 'bytes, 'e) provider \<Rightarrow> string \<Rightarrow> string \<Rightarrow> string
     \<Rightarrow> 'e error + bool" where
  "Ecdsa_verify P signature messageHash pubKey =
     (case secp256k1_verify P signature messageHash pubKey of
        Inl e \<Rightarrow> Inl (ProviderError e)
      | Inr b \<Rightarrow> Inr b)"

definition EcdsaSecp256k1Suite ::
  "('pt, 'ept, 'sg, 'bytes, 'e) provider \<Rightarrow> 'e ICryptoSuite" where
  "EcdsaSecp256k1Suite P =
     \<lparr>validateAndNormalizePublicKey = Ecdsa_validateAndNormalizePublicKey P,
      sign = Ecdsa_sign P,
      verify = Ecdsa_verify P\<rparr>"

section \<open>The secp256k1/Schnorr suite (lines 94-110)\<close>

text \<open>The method declares one parameter only: an options argument is dropped.\<close>

definition Schnorr_validateAndNormalizePublicKey ::
  "string \<Rightarrow> 'e error + NormalizedKey" where
  "Schnorr_validateAndNormalizePublicKey pubKeyHex =
     (if length pubKeyHex \<noteq> 64
      then Inl (KeyValidationError
                  (''Invalid Schnorr (BIP340) public key length. Expected 32 bytes (64 hex chars), got ''
                   @ numberToString (length pubKeyHex) @ ''.''))
      else Inr \<lparr>publicKey = pubKeyHex, format = SchnorrFormat\<rparr>)"

definition Schnorr_sign ::
  "('pt, 'ept, 'sg, 'bytes, 'e) provider \<Rightarrow> string \<Rightarrow> string \<Rightarrow> 'e error + string" where
  "Schnorr_sign P privateKey messageHash =
     (case schnorr_sign P messageHash privateKey of
        Inl e \<Rightarrow> Inl (ProviderError e)
      | Inr bs \<Rightarrow> Inr (bytesToHex P bs))"

definition Schnorr_verify ::
  "('pt, 'ept, 'sg, 'bytes, 'e) provider \<Rightarrow> string \<Rightarrow> string \<Rightarrow> string
     \<Rightarrow> 'e error + bool" where
  "Schnorr_verify P signature messageHash pubKey =
     (case schnorr_verify P signature messageHash pubKey of
        Inl e \<Rightarrow> Inl (ProviderError e)
      | Inr b \<Rightarrow> Inr b)"

definition SchnorrSecp256k1Suite ::
  "('pt, 'ept, 'sg, 'bytes, 'e) provider \<Rightarrow> 'e ICryptoSuite" where
  "SchnorrSecp256k1Suite P =
     \<lparr>validateAndNormalizePublicKey = (\<lambda>pubKeyHex opts. Schnorr_validateAndNormalizePublicKey pubKeyHex),
      sign = Schnorr_sign P,
      verify = Schnorr_verify P\<rparr>"

section \<open>The ed25519/EdDSA suite (lines 112-136)\<close>

text \<open>
  Lines 120-126: the \<open>try\<close> block calls the point decoder for its exception only; the
  \<open>catch\<close> replaces whatever was thrown by a \<open>KeyValidationError\<close>.
\<close>

definition Eddsa_validateAndNormalizePublicKey ::
  "('pt, 'ept, 'sg, 'bytes, 'e) provider \<Rightarrow> string \<Rightarrow> 'e error + NormalizedKey" where
  "Eddsa_validateAndNormalizePublicKey P pubKeyHex =
     (if length pubKeyHex \<noteq> 64
      then Inl (KeyValidationError
                  (''Invalid EdDSA (Ed25519) public key length. Expected 32 bytes (64 hex chars), got ''
                   @ numberToString (length pubKeyHex) @ ''.''))
      else (case ed25519_Point_fromHex P pubKeyHex of
              Inl e \<Rightarrow>
                Inl (KeyValidationError
                       ''Invalid Ed25519 public key. Not a valid point on the curve.'')
            | Inr point \<Rightarrow> Inr \<lparr>publicKey = pubKeyHex, format = Compressed\<rparr>))"

definition Eddsa_sign ::
  "('pt, 'ept, 'sg, 'bytes, 'e) provider \<Rightarrow> string \<Rightarrow> string \<Rightarrow> 'e error + string" where
  "Eddsa_sign P privateKey messageHash =
     (case ed25519_sign P messageHash privateKey of
        Inl e \<Rightarrow> Inl (ProviderError e)
      | Inr signatureBytes \<Rightarrow> Inr (bytesToHex P signatureBytes))"

definition Eddsa_verify ::
  "('pt, 'ept, 'sg, 'bytes, 'e) provider \<Rightarrow> string \<Rightarrow> string \<Rightarrow> string
     \<Rightarrow> 'e error + bool" where
  "Eddsa_verify P signature messageHash pubKey =
     (case ed25519_verify P signature messageHash pubKey of
        Inl e \<Rightarrow> Inl (ProviderError e)
      | Inr b \<Rightarrow> Inr b)"

definition EddsaEd25519Suite ::
  "('pt, 'ept, 'sg, 'bytes, 'e) provider \<Rightarrow> 'e ICryptoSuite" where
  "EddsaEd25519Suite P =
     \<lparr>validateAndNormalizePublicKey = (\<lambda>pubKeyHex opts. Eddsa_validateAndNormalizePublicKey P pubKeyHex),
      sign = Eddsa_sign P,
      verify = Eddsa_verify P\<rparr>"

section \<open>The registry and the factory (lines 140-171)\<close>

text \<open>
  \<open>cryptoSuites\<close> is a total record over the curves whose entries are partial records
  over the schemes: a scheme with no entry reads as \<open>undefined\<close>, here \<open>None\<close>.
\<close>

fun cryptoSuites ::
  "('pt, 'ept, 'sg, 'bytes, 'e) provider \<Rightarrow> SupportedCurve
     \<Rightarrow> (SupportedScheme \<rightharpoonup> 'e ICryptoSuite)" where
  "cryptoSuites P Secp256k1 =
     [ECDSA \<mapsto> EcdsaSecp256k1Suite P, Schnorr \<mapsto> SchnorrSecp256k1Suite P]"
| "cryptoSuites P Ed25519 = [EdDSA \<mapsto> EddsaEd25519Suite P]"

record params =
  curve :: SupportedCurve
  scheme :: SupportedScheme

definition getCryptoSuite ::
  "('pt, 'ept, 'sg, 'bytes, 'e) provider \<Rightarrow> params \<Rightarrow> 'e error + 'e ICryptoSuite" where
  "getCryptoSuite P ps =
     (case cryptoSuites P (curve ps) (scheme ps) of
        None \<Rightarrow>
          Inl (KeyValidationError
                 (''The scheme '' @ quoted (schemeTag (scheme ps))
                  @ '' is not supported for the curve '' @ quoted (curveTag (curve ps))
                  @ ''.''))
      | Some suite \<Rightarrow> Inr suite)"

section \<open>A stand-in for the imported primitives\<close>

text \<open>
  The statements below hold for every value of the parameter. To instantiate them at
  concrete keys one concrete value is needed; this one is a table, not an
  implementation of the curves. It knows one secp256k1 point, the generator, under its
  two standard encodings, and one ed25519 point, the base point; it rejects every other
  string, and it throws a string. Its verifier throws on a signature that is not 128
  characters long and accepts nothing.
\<close>

datatype known_point = Generator

definition hexOfByte :: "nat \<Rightarrow> string" where
  "hexOfByte b = [''0123456789abcdef'' ! (b div 16), ''0123456789abcdef'' ! (b mod 16)]"

definition generatorBytes :: "bool \<Rightarrow> nat list" where
  "generatorBytes isCompressed =
     (if isCompressed
      then [0x02,
         0x79, 0xBE, 0x66, 0x7E, 0xF9, 0xDC, 0xBB, 0xAC,
         0x55, 0xA0, 0x62, 0x95, 0xCE, 0x87, 0x0B, 0x07,
         0x02, 0x9B, 0xFC, 0xDB, 0x2D, 0xCE, 0x28, 0xD9,
         0x59, 0xF2, 0x81, 0x5B, 0x16, 0xF8, 0x17, 0x98]
      else [0x04,
         0x79, 0xBE, 0x66, 0x7E, 0xF9, 0xDC, 0xBB, 0xAC,
         0x55, 0xA0, 0x62, 0x95, 0xCE, 0x87, 0x0B, 0x07,
         0x02, 0x9B, 0xFC, 0xDB, 0x2D, 0xCE, 0x28, 0xD9,
         0x59, 0xF2, 0x81, 0x5B, 0x16, 0xF8, 0x17, 0x98,
         0x48, 0x3A, 0xDA, 0x77, 0x26, 0xA3, 0xC4, 0x65,
         0x5D, 0xA4, 0xFB, 0xFC, 0x0E, 0x11, 0x08, 0xA8,
         0xFD, 0x17, 0xB4, 0x48, 0xA6, 0x85, 0x54, 0x19,
         0x9C, 0x47, 0xD0, 0x8F, 0xFB, 0x10, 0xD4, 0xB8])"

definition generatorHex :: "bool \<Rightarrow> string" where
  "generatorHex isCompressed = concat (map hexOfByte (generatorBytes isCompressed))"

definition ed25519BaseHex :: string where
  "ed25519BaseHex = ''5866666666666666666666666666666666666666666666666666666666666666''"

definition standIn :: "(known_point, known_point, string, nat list, string) provider" where
  "standIn =
     \<lparr>bytesToHex = (\<lambda>bs. concat (map hexOfByte bs)),
      secp256k1_Point_fromHex =
        (\<lambda>s. if s = generatorHex True \<or> s = generatorHex False
             then Inr Generator else Inl ''bad point''),
      secp256k1_Point_toBytes = (\<lambda>pt isCompressed. generatorBytes isCompressed),
      secp256k1_sign =
        (\<lambda>msgHash privKey. if length privKey = 64 then Inr (replicate 128 CHR ''0'')
             else Inl ''bad private key''),
      toCompactHex = (\<lambda>sg. sg),
      secp256k1_verify =
        (\<lambda>sg msgHash pubKey. if length sg = 128 then Inr False else Inl ''bad signature''),
      schnorr_sign =
        (\<lambda>msgHash privKey. if length privKey = 64 then Inr (replicate 64 0)
             else Inl ''bad private key''),
      schnorr_verify =
        (\<lambda>sg msgHash pubKey. if length sg = 128 then Inr False else Inl ''bad signature''),
      ed25519_Point_fromHex =
        (\<lambda>s. if s = ed25519BaseHex then Inr Generator else Inl ''bad point''),
      ed25519_sign =
        (\<lambda>msgHash privKey. if length privKey = 64 then Inr (replicate 64 0)
             else Inl ''bad private key''),
      ed25519_verify =
        (\<lambda>sg msgHash pubKey. if length sg = 128 then Inr False else Inl ''bad signature'')\<rparr>"

text \<open>
  A second table, for keys spelled with upper-case hexadecimal digits: its secp256k1
  point decoder reads the digits A to F as a to f before it looks the string up, so it
  knows the generator under either spelling. Every serializer still writes lower-case
  digits.
\<close>

definition lowerHexDigit :: "char \<Rightarrow> char" where
  "lowerHexDigit ch =
     (if ch = CHR ''A'' then CHR ''a'' else if ch = CHR ''B'' then CHR ''b''
      else if ch = CHR ''C'' then CHR ''c'' else if ch = CHR ''D'' then CHR ''d''
      else if ch = CHR ''E'' then CHR ''e'' else if ch = CHR ''F'' then CHR ''f''
      else ch)"

definition standInAnyCase ::
  "(known_point, known_point, string, nat list, string) provider" where
  "standInAnyCase =
     standIn\<lparr>secp256k1_Point_fromHex :=
               (\<lambda>s. secp256k1_Point_fromHex standIn (map lowerHexDigit s))\<rparr>"

text \<open>
  The number a string of decimal digits denotes; it is used only to say what
  \<open>numberToString\<close> returns.
\<close>

definition decimalValue :: "string \<Rightarrow> nat" where
  "decimalValue ds = foldl (\<lambda>acc d. 10 * acc + (of_char d - 48)) 0 ds"

section \<open>Facts about the helpers\<close>

lemma generatorHex_True:
  "generatorHex True = ''0279be667ef9dcbbac55a06295ce870b07029bfcdb2dce28d959f2815b16f81798''"
  by (simp add: generatorHex_def generatorBytes_def hexOfByte_def)

lemma generatorHex_False:
  "generatorHex False = ''0479be667ef9dcbbac55a06295ce870b07029bfcdb2dce28d959f2815b16f81798483ada7726a3c4655da4fbfc0e1108a8fd17b448a68554199c47d08ffb10d4b8''"
  by (simp add: generatorHex_def generatorBytes_def hexOfByte_def)

lemma decimalValue_snoc:
  "decimalValue (ds @ [d]) = 10 * decimalValue ds + (of_char d - 48)"
  by (simp add: decimalValue_def)

lemma digit_value:
  assumes "n < 10"
  shows "of_char (''0123456789'' ! n) - 48 = n"
proof -
  from assms have "n \<in> {0, 1, 2, 3, 4, 5, 6, 7, 8, 9}" by auto
  then show ?thesis by auto
qed

lemma decimalValue_numberToString: "decimalValue (numberToString n) = n"
proof (induction n rule: numberToString.induct)
  case (1 n)
  show ?case
  proof (cases "n < 10")
    case True
    then show ?thesis
      by (subst numberToString.simps) (simp add: decimalValue_def digit_value)
  next
    case False
    have "n mod 10 < 10" by simp
    with False 1 show ?thesis
      by (subst numberToString.simps) (simp add: decimalValue_snoc digit_value)
  qed
qed

lemma suite_methods [simp]:
  "validateAndNormalizePublicKey (EcdsaSecp256k1Suite P) = Ecdsa_validateAndNormalizePublicKey P"
  "sign (EcdsaSecp256k1Suite P) = Ecdsa_sign P"
  "verify (EcdsaSecp256k1Suite P) = Ecdsa_verify P"
  "validateAndNormalizePublicKey (SchnorrSecp256k1Suite P) =
     (\<lambda>pubKeyHex opts. Schnorr_validateAndNormalizePublicKey pubKeyHex)"
  "sign (SchnorrSecp256k1Suite P) = Schnorr_sign P"
  "verify (SchnorrSecp256k1Suite P) = Schnorr_verify P"
  "validateAndNormalizePublicKey (EddsaEd25519Suite P) =
     (\<lambda>pubKeyHex opts. Eddsa_validateAndNormalizePublicKey P pubKeyHex)"
  "sign (EddsaEd25519Suite P) = Eddsa_sign P"
  "verify (EddsaEd25519Suite P) = Eddsa_verify P"
  by (simp_all add: EcdsaSecp256k1Suite_def SchnorrSecp256k1Suite_def EddsaEd25519Suite_def)

section \<open>The factory\<close>

text \<open>
  Claim C3. \<open>getCryptoSuite\<close> returns a suite for each of the three pairs
  (secp256k1, ECDSA), (secp256k1, Schnorr) and (ed25519, EdDSA): the suite the registry
  holds for it. For each of the three other pairs it fails with a \<open>KeyValidationError\<close>
  whose message is "The scheme 's' is not supported for the curve 'c'.", with the
  requested scheme and the requested curve in the places of s and c.
\<close>

theorem getCryptoSuite_pairs:
  "getCryptoSuite P \<lparr>curve = Secp256k1, scheme = ECDSA\<rparr> = Inr (EcdsaSecp256k1Suite P)
   \<and> getCryptoSuite P \<lparr>curve = Secp256k1, scheme = Schnorr\<rparr> = Inr (SchnorrSecp256k1Suite P)
   \<and> getCryptoSuite P \<lparr>curve = Ed25519, scheme = EdDSA\<rparr> = Inr (EddsaEd25519Suite P)
   \<and> getCryptoSuite P \<lparr>curve = Secp256k1, scheme = EdDSA\<rparr> =
       Inl (KeyValidationError ''The scheme 'EdDSA' is not supported for the curve 'secp256k1'.'')
   \<and> getCryptoSuite P \<lparr>curve = Ed25519, scheme = ECDSA\<rparr> =
       Inl (KeyValidationError ''The scheme 'ECDSA' is not supported for the curve 'ed25519'.'')
   \<and> getCryptoSuite P \<lparr>curve = Ed25519, scheme = Schnorr\<rparr> =
       Inl (KeyValidationError ''The scheme 'Schnorr' is not supported for the curve 'ed25519'.'')
   \<and> (\<forall>c s. (c, s) \<notin> {(Secp256k1, ECDSA), (Secp256k1, Schnorr), (Ed25519, EdDSA)} \<longrightarrow>
         getCryptoSuite P \<lparr>curve = c, scheme = s\<rparr> =
           Inl (KeyValidationError
                  (''The scheme '' @ quoted (schemeTag s)
                   @ '' is not supported for the curve '' @ quoted (curveTag c) @ ''.'')))"
proof -
  have general: "getCryptoSuite P \<lparr>curve = c, scheme = s\<rparr> =
           Inl (KeyValidationError
                  (''The scheme '' @ quoted (schemeTag s)
                   @ '' is not supported for the curve '' @ quoted (curveTag c) @ ''.''))"
    if "(c, s) \<notin> {(Secp256k1, ECDSA), (Secp256k1, Schnorr), (Ed25519, EdDSA)}" for c s
    using that by (cases c; cases s) (simp_all add: getCryptoSuite_def)
  show ?thesis
    using general by (simp add: getCryptoSuite_def quoted_def)
qed

theorem getCryptoSuite_pairs_witness:
  "(Ed25519, ECDSA) \<notin> {(Secp256k1, ECDSA), (Secp256k1, Schnorr), (Ed25519, EdDSA)}
   \<and> getCryptoSuite standIn \<lparr>curve = Ed25519, scheme = ECDSA\<rparr> =
       Inl (KeyValidationError ''The scheme 'ECDSA' is not supported for the curve 'ed25519'.'')
   \<and> (\<exists>suite. getCryptoSuite standIn \<lparr>curve = Ed25519, scheme = EdDSA\<rparr> = Inr suite)"
proof -
  have h: "(Ed25519, ECDSA) \<notin> {(Secp256k1, ECDSA), (Secp256k1, Schnorr), (Ed25519, EdDSA)}"
    by simp
  from getCryptoSuite_pairs [of standIn] h
  have "getCryptoSuite standIn \<lparr>curve = Ed25519, scheme = ECDSA\<rparr> =
       Inl (KeyValidationError
                  (''The scheme '' @ quoted (schemeTag ECDSA)
                   @ '' is not supported for the curve '' @ quoted (curveTag Ed25519) @ ''.''))"
    by blast
  moreover from getCryptoSuite_pairs [of standIn]
  have "\<exists>suite. getCryptoSuite standIn \<lparr>curve = Ed25519, scheme = EdDSA\<rparr> = Inr suite"
    by blast
  ultimately show ?thesis using h by (simp add: quoted_def)
qed

section \<open>The secp256k1/Schnorr suite\<close>

text \<open>
  Claim C4. For the secp256k1/Schnorr suite, an input whose length is not 64 makes
  \<open>validateAndNormalizePublicKey\<close> fail with a \<open>KeyValidationError\<close> whose message
  gives the expected count, 64 hex characters, and the actual one, the decimal numeral
  of the input's length. An input of length 64 succeeds: the result is the input
  itself with the format tag 'schnorr'. No curve point is decoded: the result is the
  same for every value of the primitives and of the options.
\<close>

theorem schnorr_validate_by_length:
  "(length pk \<noteq> 64 \<longrightarrow>
      validateAndNormalizePublicKey (SchnorrSecp256k1Suite P) pk opts =
        Inl (KeyValidationError
               (''Invalid Schnorr (BIP340) public key length. Expected 32 bytes (64 hex chars), got ''
                @ numberToString (length pk) @ ''.''))
      \<and> decimalValue (numberToString (length pk)) = length pk)
   \<and> (length pk = 64 \<longrightarrow>
      validateAndNormalizePublicKey (SchnorrSecp256k1Suite P) pk opts =
        Inr \<lparr>publicKey = pk, format = SchnorrFormat\<rparr>
      \<and> formatTag SchnorrFormat = ''schnorr'')
   \<and> validateAndNormalizePublicKey (SchnorrSecp256k1Suite P) pk opts =
       validateAndNormalizePublicKey (SchnorrSecp256k1Suite P') pk opts'"
  by (simp add: Schnorr_validateAndNormalizePublicKey_def decimalValue_numberToString)

theorem schnorr_validate_by_length_witness:
  "length ''0279be66'' \<noteq> 64
   \<and> validateAndNormalizePublicKey (SchnorrSecp256k1Suite standIn) ''0279be66'' None =
       Inl (KeyValidationError
              ''Invalid Schnorr (BIP340) public key length. Expected 32 bytes (64 hex chars), got 8.'')
   \<and> length ''79be667ef9dcbbac55a06295ce870b07029bfcdb2dce28d959f2815b16f81798'' = 64
   \<and> validateAndNormalizePublicKey (SchnorrSecp256k1Suite standIn)
        ''79be667ef9dcbbac55a06295ce870b07029bfcdb2dce28d959f2815b16f81798''
        (Some \<lparr>outputFormat = Some Uncompressed\<rparr>) =
       Inr \<lparr>publicKey = ''79be667ef9dcbbac55a06295ce870b07029bfcdb2dce28d959f2815b16f81798'',
            format = SchnorrFormat\<rparr>"
proof -
  have short: "length ''0279be66'' \<noteq> 64" by simp
  have full: "length ''79be667ef9dcbbac55a06295ce870b07029bfcdb2dce28d959f2815b16f81798'' = 64"
    by simp
  have digits: "numberToString (length ''0279be66'') = ''8''"
    by (simp add: numberToString.simps)
  from schnorr_validate_by_length [of "''0279be66''" standIn None] short
  have "validateAndNormalizePublicKey (SchnorrSecp256k1Suite standIn) ''0279be66'' None =
        Inl (KeyValidationError
               (''Invalid Schnorr (BIP340) public key length. Expected 32 bytes (64 hex chars), got ''
                @ numberToString (length ''0279be66'') @ ''.''))"
    by blast
  moreover from
    schnorr_validate_by_length
      [of "''79be667ef9dcbbac55a06295ce870b07029bfcdb2dce28d959f2815b16f81798''" standIn
          "Some \<lparr>outputFormat = Some Uncompressed\<rparr>"] full
  have "validateAndNormalizePublicKey (SchnorrSecp256k1Suite standIn)
        ''79be667ef9dcbbac55a06295ce870b07029bfcdb2dce28d959f2815b16f81798''
        (Some \<lparr>outputFormat = Some Uncompressed\<rparr>) =
       Inr \<lparr>publicKey = ''79be667ef9dcbbac55a06295ce870b07029bfcdb2dce28d959f2815b16f81798'',
            format = SchnorrFormat\<rparr>"
    by blast
  ultimately show ?thesis using short full digits by simp
qed

text \<open>
  Claim C9. The secp256k1/Schnorr suite looks at the length of the string and at
  nothing else: it never hex-decodes. Every string of exactly 64 characters, whatever
  its characters, is accepted and returned unchanged with the format tag 'schnorr';
  the witness is a string of 64 letters z, none a hexadecimal digit.
\<close>

theorem schnorr_accepts_any_64_characters:
  assumes "length pk = 64"
  shows "validateAndNormalizePublicKey (SchnorrSecp256k1Suite P) pk opts =
           Inr \<lparr>publicKey = pk, format = SchnorrFormat\<rparr>"
  using assms by (simp add: Schnorr_validateAndNormalizePublicKey_def)

theorem schnorr_accepts_any_64_characters_witness:
  "length ''zzzzzzzzzzzzzzzzzzzzzzzzzzzzzzzzzzzzzzzzzzzzzzzzzzzzzzzzzzzzzzzz'' = 64
   \<and> CHR ''z'' \<notin> set ''0123456789abcdefABCDEF''
   \<and> validateAndNormalizePublicKey (SchnorrSecp256k1Suite standIn)
        ''zzzzzzzzzzzzzzzzzzzzzzzzzzzzzzzzzzzzzzzzzzzzzzzzzzzzzzzzzzzzzzzz'' None =
       Inr \<lparr>publicKey = ''zzzzzzzzzzzzzzzzzzzzzzzzzzzzzzzzzzzzzzzzzzzzzzzzzzzzzzzzzzzzzzzz'',
            format = SchnorrFormat\<rparr>"
proof -
  have len: "length ''zzzzzzzzzzzzzzzzzzzzzzzzzzzzzzzzzzzzzzzzzzzzzzzzzzzzzzzzzzzzzzzz'' = 64"
    by simp
  from schnorr_accepts_any_64_characters [OF len, of standIn None] len
  show ?thesis by simp
qed

section \<open>The ed25519/EdDSA suite\<close>

text \<open>
  Claim C5. For the ed25519/EdDSA suite, \<open>validateAndNormalizePublicKey\<close> fails on
  every input whose length is not 64, with a \<open>KeyValidationError\<close> giving the expected
  and the actual count. On an input of length 64 that the point decoder rejects, it
  fails with the \<open>KeyValidationError\<close> "Invalid Ed25519 public key. Not a valid point
  on the curve.", whatever the decoder threw. On an input of length 64 that the
  decoder accepts, it returns the input unchanged with the format tag 'compressed',
  whatever the options say.
\<close>

theorem eddsa_validate_cases:
  "(length pk \<noteq> 64 \<longrightarrow>
      validateAndNormalizePublicKey (EddsaEd25519Suite P) pk opts =
        Inl (KeyValidationError
               (''Invalid EdDSA (Ed25519) public key length. Expected 32 bytes (64 hex chars), got ''
                @ numberToString (length pk) @ ''.''))
      \<and> decimalValue (numberToString (length pk)) = length pk)
   \<and> (length pk = 64 \<and> ed25519_Point_fromHex P pk = Inl e \<longrightarrow>
      validateAndNormalizePublicKey (EddsaEd25519Suite P) pk opts =
        Inl (KeyValidationError
               ''Invalid Ed25519 public key. Not a valid point on the curve.''))
   \<and> (length pk = 64 \<and> ed25519_Point_fromHex P pk = Inr pt \<longrightarrow>
      validateAndNormalizePublicKey (EddsaEd25519Suite P) pk opts =
        Inr \<lparr>publicKey = pk, format = Compressed\<rparr>
      \<and> formatTag Compressed = ''compressed'')"
  by (simp add: Eddsa_validateAndNormalizePublicKey_def decimalValue_numberToString)

theorem eddsa_validate_cases_witness:
  "validateAndNormalizePublicKey (EddsaEd25519Suite standIn) ''5866'' None =
     Inl (KeyValidationError
            ''Invalid EdDSA (Ed25519) public key length. Expected 32 bytes (64 hex chars), got 4.'')
   \<and> validateAndNormalizePublicKey (EddsaEd25519Suite standIn)
        ''zzzzzzzzzzzzzzzzzzzzzzzzzzzzzzzzzzzzzzzzzzzzzzzzzzzzzzzzzzzzzzzz'' None =
       Inl (KeyValidationError ''Invalid Ed25519 public key. Not a valid point on the curve.'')
   \<and> validateAndNormalizePublicKey (EddsaEd25519Suite standIn)
        ''5866666666666666666666666666666666666666666666666666666666666666''
        (Some \<lparr>outputFormat = Some Uncompressed\<rparr>) =
       Inr \<lparr>publicKey = ''5866666666666666666666666666666666666666666666666666666666666666'',
            format = Compressed\<rparr>"
proof -
  have short: "length ''5866'' \<noteq> 64" by simp
  have digits: "numberToString (length ''5866'') = ''4''"
    by (simp add: numberToString.simps)
  have bad: "length ''zzzzzzzzzzzzzzzzzzzzzzzzzzzzzzzzzzzzzzzzzzzzzzzzzzzzzzzzzzzzzzzz'' = 64
      \<and> ed25519_Point_fromHex standIn
          ''zzzzzzzzzzzzzzzzzzzzzzzzzzzzzzzzzzzzzzzzzzzzzzzzzzzzzzzzzzzzzzzz'' = Inl ''bad point''"
    by (simp add: standIn_def ed25519BaseHex_def)
  have good: "length ''5866666666666666666666666666666666666666666666666666666666666666'' = 64
      \<and> ed25519_Point_fromHex standIn
          ''5866666666666666666666666666666666666666666666666666666666666666'' = Inr Generator"
    by (simp add: standIn_def ed25519BaseHex_def)
  from eddsa_validate_cases [of "''5866''" standIn None] short
  have "validateAndNormalizePublicKey (EddsaEd25519Suite standIn) ''5866'' None =
        Inl (KeyValidationError
               (''Invalid EdDSA (Ed25519) public key length. Expected 32 bytes (64 hex chars), got ''
                @ numberToString (length ''5866'') @ ''.''))"
    by blast
  moreover from
    eddsa_validate_cases
      [of "''zzzzzzzzzzzzzzzzzzzzzzzzzzzzzzzzzzzzzzzzzzzzzzzzzzzzzzzzzzzzzzzz''" standIn None
          "''bad point''"] bad
  have "validateAndNormalizePublicKey (EddsaEd25519Suite standIn)
        ''zzzzzzzzzzzzzzzzzzzzzzzzzzzzzzzzzzzzzzzzzzzzzzzzzzzzzzzzzzzzzzzz'' None =
       Inl (KeyValidationError ''Invalid Ed25519 public key. Not a valid point on the curve.'')"
    by blast
  moreover from
    eddsa_validate_cases
      [of "''5866666666666666666666666666666666666666666666666666666666666666''" standIn
          "Some \<lparr>outputFormat = Some Uncompressed\<rparr>" _ Generator] good
  have "validateAndNormalizePublicKey (EddsaEd25519Suite standIn)
        ''5866666666666666666666666666666666666666666666666666666666666666''
        (Some \<lparr>outputFormat = Some Uncompressed\<rparr>) =
       Inr \<lparr>publicKey = ''5866666666666666666666666666666666666666666666666666666666666666'',
            format = Compressed\<rparr>"
    by blast
  ultimately show ?thesis using digits by simp
qed

section \<open>The secp256k1/ECDSA suite\<close>

lemma startsWith_two: "startsWith s [a, b] = (take 2 s = [a, b])"
  by (simp add: startsWith_def numeral_2_eq_2)

lemma inputFormat_by_shape:
  "inputFormat pk =
     (if length pk = 66 \<and> (take 2 pk = ''02'' \<or> take 2 pk = ''03'') then Some Compressed
      else if length pk = 128 \<or> (length pk = 130 \<and> take 2 pk = ''04'') then Some Uncompressed
      else None)"
  by (simp add: inputFormat_def startsWith_two)

lemma Ecdsa_validate_rejected:
  assumes "inputFormat pk = None"
  shows "Ecdsa_validateAndNormalizePublicKey P pk opts =
           Inl (KeyValidationError ''Invalid ECDSA public key format. Expected 33 or 65 bytes.'')"
  using assms by (simp add: Ecdsa_validateAndNormalizePublicKey_def)

lemma Ecdsa_validate_accepted:
  assumes "inputFormat pk = Some inFmt"
  shows "Ecdsa_validateAndNormalizePublicKey P pk opts =
           (case secp256k1_Point_fromHex P (if length pk = 128 then ''04'' @ pk else pk) of
              Inl e \<Rightarrow> Inl (ProviderError e)
            | Inr pt \<Rightarrow>
                Inr \<lparr>publicKey =
                       bytesToHex P (secp256k1_Point_toBytes P pt (desiredFormat opts = Compressed)),
                     format = desiredFormat opts\<rparr>)"
proof -
  from assms have "(inFmt = Uncompressed \<and> length pk = 128) = (length pk = 128)"
    by (auto simp: inputFormat_by_shape split: if_splits)
  with assms show ?thesis
    by (simp add: Ecdsa_validateAndNormalizePublicKey_def)
qed

text \<open>
  Claim C1. The secp256k1/ECDSA suite reads the input's format off its length and its
  first byte: 66 characters starting with 02 or 03 are a compressed key, 130
  characters starting with 04 an uncompressed key, and 128 characters, whatever they
  start with, an uncompressed key without its prefix. These are the inputs that go on
  to the point decoder: the call fails with the \<open>KeyValidationError\<close> "Invalid ECDSA
  public key format. Expected 33 or 65 bytes." exactly on the inputs of no such shape,
  it succeeds exactly on the inputs of such a shape that the decoder accepts, and on a
  128-character input it behaves as on the same input with 04 in front.
\<close>

theorem ecdsa_accepted_shapes:
  "(inputFormat pk = Some Compressed \<longleftrightarrow>
      length pk = 66 \<and> (take 2 pk = ''02'' \<or> take 2 pk = ''03''))
   \<and> (inputFormat pk = Some Uncompressed \<longleftrightarrow>
      (length pk = 130 \<and> take 2 pk = ''04'') \<or> length pk = 128)
   \<and> (validateAndNormalizePublicKey (EcdsaSecp256k1Suite P) pk opts =
        Inl (KeyValidationError ''Invalid ECDSA public key format. Expected 33 or 65 bytes.'')
      \<longleftrightarrow>
      \<not> ((length pk = 66 \<and> (take 2 pk = ''02'' \<or> take 2 pk = ''03''))
         \<or> (length pk = 130 \<and> take 2 pk = ''04'') \<or> length pk = 128))
   \<and> ((\<exists>r. validateAndNormalizePublicKey (EcdsaSecp256k1Suite P) pk opts = Inr r)
      \<longleftrightarrow>
      ((length pk = 66 \<and> (take 2 pk = ''02'' \<or> take 2 pk = ''03''))
         \<or> (length pk = 130 \<and> take 2 pk = ''04'') \<or> length pk = 128)
      \<and> (\<exists>pt. secp256k1_Point_fromHex P (if length pk = 128 then ''04'' @ pk else pk) = Inr pt))
   \<and> (length pk = 128 \<longrightarrow>
      validateAndNormalizePublicKey (EcdsaSecp256k1Suite P) pk opts =
        validateAndNormalizePublicKey (EcdsaSecp256k1Suite P) (''04'' @ pk) opts)"
proof -
  let ?shape = "(length pk = 66 \<and> (take 2 pk = ''02'' \<or> take 2 pk = ''03''))
         \<or> (length pk = 130 \<and> take 2 pk = ''04'') \<or> length pk = 128"
  have c1: "inputFormat pk = Some Compressed \<longleftrightarrow>
      length pk = 66 \<and> (take 2 pk = ''02'' \<or> take 2 pk = ''03'')"
    by (simp add: inputFormat_by_shape)
  have c2: "inputFormat pk = Some Uncompressed \<longleftrightarrow>
      (length pk = 130 \<and> take 2 pk = ''04'') \<or> length pk = 128"
    by (auto simp: inputFormat_by_shape)
  have none: "inputFormat pk = None \<longleftrightarrow> \<not> ?shape"
    by (auto simp: inputFormat_by_shape)
  have c3: "Ecdsa_validateAndNormalizePublicKey P pk opts =
        Inl (KeyValidationError ''Invalid ECDSA public key format. Expected 33 or 65 bytes.'')
      \<longleftrightarrow> \<not> ?shape"
  proof (cases "inputFormat pk")
    case None
    with none show ?thesis by (simp add: Ecdsa_validate_rejected)
  next
    case (Some inFmt)
    with none have "?shape" by simp
    moreover from Some have "Ecdsa_validateAndNormalizePublicKey P pk opts \<noteq>
        Inl (KeyValidationError ''Invalid ECDSA public key format. Expected 33 or 65 bytes.'')"
      by (simp add: Ecdsa_validate_accepted split: sum.splits)
    ultimately show ?thesis by blast
  qed
  have c4: "(\<exists>r. Ecdsa_validateAndNormalizePublicKey P pk opts = Inr r) \<longleftrightarrow>
      ?shape \<and> (\<exists>pt. secp256k1_Point_fromHex P (if length pk = 128 then ''04'' @ pk else pk) = Inr pt)"
  proof (cases "inputFormat pk")
    case None
    with none show ?thesis by (simp add: Ecdsa_validate_rejected)
  next
    case (Some inFmt)
    with none have "?shape" by simp
    with Some show ?thesis
      by (simp add: Ecdsa_validate_accepted split: sum.splits)
  qed
  have c5: "Ecdsa_validateAndNormalizePublicKey P pk opts =
        Ecdsa_validateAndNormalizePublicKey P (''04'' @ pk) opts" if len: "length pk = 128"
  proof -
    from len have a: "inputFormat pk = Some Uncompressed"
      by (simp add: inputFormat_by_shape)
    from len have b: "inputFormat (''04'' @ pk) = Some Uncompressed"
      by (simp add: inputFormat_by_shape)
    from len have "length (''04'' @ pk) \<noteq> 128" by simp
    with Ecdsa_validate_accepted [OF b, of P opts] Ecdsa_validate_accepted [OF a, of P opts] len
    show ?thesis by (simp only: if_True if_False simp_thms)
  qed
  from c1 c2 c3 c4 c5 show ?thesis by simp
qed


theorem ecdsa_accepted_shapes_witness:
  "inputFormat (generatorHex True) = Some Compressed
   \<and> inputFormat (generatorHex False) = Some Uncompressed
   \<and> inputFormat (drop 2 (generatorHex False)) = Some Uncompressed
   \<and> validateAndNormalizePublicKey (EcdsaSecp256k1Suite standIn) ''0479be66'' None =
       Inl (KeyValidationError ''Invalid ECDSA public key format. Expected 33 or 65 bytes.'')
   \<and> validateAndNormalizePublicKey (EcdsaSecp256k1Suite standIn)
        (drop 2 (generatorHex False)) None =
       validateAndNormalizePublicKey (EcdsaSecp256k1Suite standIn) (generatorHex False) None
   \<and> (\<exists>r. validateAndNormalizePublicKey (EcdsaSecp256k1Suite standIn)
             (generatorHex True) None = Inr r)"
proof -
  have a: "length (generatorHex True) = 66 \<and> take 2 (generatorHex True) = ''02''"
    by (simp add: generatorHex_True)
  have b: "length (generatorHex False) = 130 \<and> take 2 (generatorHex False) = ''04''"
    by (simp add: generatorHex_False)
  have c: "length (drop 2 (generatorHex False)) = 128
           \<and> ''04'' @ drop 2 (generatorHex False) = generatorHex False"
    by (simp add: generatorHex_False)
  have d: "length ''0479be66'' = 8" by simp
  have e: "secp256k1_Point_fromHex standIn (generatorHex True) = Inr Generator"
    by (simp add: standIn_def)
  from ecdsa_accepted_shapes [of "generatorHex True" standIn None] a
  have 1: "inputFormat (generatorHex True) = Some Compressed" by blast
  from ecdsa_accepted_shapes [of "generatorHex False" standIn None] b
  have 2: "inputFormat (generatorHex False) = Some Uncompressed" by blast
  from ecdsa_accepted_shapes [of "drop 2 (generatorHex False)" standIn None] c
  have 3: "inputFormat (drop 2 (generatorHex False)) = Some Uncompressed" by blast
  from ecdsa_accepted_shapes [of "''0479be66''" standIn None] d
  have 4: "validateAndNormalizePublicKey (EcdsaSecp256k1Suite standIn) ''0479be66'' None =
       Inl (KeyValidationError ''Invalid ECDSA public key format. Expected 33 or 65 bytes.'')"
    by simp
  from ecdsa_accepted_shapes [of "drop 2 (generatorHex False)" standIn None] c
  have 5: "validateAndNormalizePublicKey (EcdsaSecp256k1Suite standIn)
        (drop 2 (generatorHex False)) None =
       validateAndNormalizePublicKey (EcdsaSecp256k1Suite standIn) (generatorHex False) None"
    by simp
  from ecdsa_accepted_shapes [of "generatorHex True" standIn None] a e
  have 6: "\<exists>r. validateAndNormalizePublicKey (EcdsaSecp256k1Suite standIn)
             (generatorHex True) None = Inr r"
    by simp
  from 1 2 3 4 5 6 show ?thesis by blast
qed

text \<open>
  Claim C2. The claim says that, for the secp256k1/ECDSA suite, an input of an accepted
  shape that the point decoder rejects makes \<open>validateAndNormalizePublicKey\<close> fail
  with a \<open>KeyValidationError\<close>. The method calls the decoder outside any \<open>try\<close>: what
  the decoder throws reaches the caller as it is, and the failure is never a
  \<open>KeyValidationError\<close>. (The ed25519/EdDSA suite catches and replaces it, see C5.)
\<close>

theorem ecdsa_decoder_failure_propagates:
  assumes "(length pk = 66 \<and> (take 2 pk = ''02'' \<or> take 2 pk = ''03''))
           \<or> (length pk = 130 \<and> take 2 pk = ''04'') \<or> length pk = 128"
    and "secp256k1_Point_fromHex P (if length pk = 128 then ''04'' @ pk else pk) = Inl e"
  shows "validateAndNormalizePublicKey (EcdsaSecp256k1Suite P) pk opts = Inl (ProviderError e)
         \<and> (\<forall>msg. validateAndNormalizePublicKey (EcdsaSecp256k1Suite P) pk opts
                    \<noteq> Inl (KeyValidationError msg))"
proof -
  from assms(1) obtain inFmt where "inputFormat pk = Some inFmt"
    by (auto simp: inputFormat_by_shape)
  from Ecdsa_validate_accepted [OF this, of P opts] assms(2) show ?thesis by simp
qed

theorem ecdsa_decoder_failure_propagates_witness:
  "length ''02ffffffffffffffffffffffffffffffffffffffffffffffffffffffffffffffff'' = 66
   \<and> take 2 ''02ffffffffffffffffffffffffffffffffffffffffffffffffffffffffffffffff'' = ''02''
   \<and> secp256k1_Point_fromHex standIn ''02ffffffffffffffffffffffffffffffffffffffffffffffffffffffffffffffff'' = Inl ''bad point''
   \<and> validateAndNormalizePublicKey (EcdsaSecp256k1Suite standIn) ''02ffffffffffffffffffffffffffffffffffffffffffffffffffffffffffffffff'' None =
       Inl (ProviderError ''bad point'')"
proof -
  have shape: "(length ''02ffffffffffffffffffffffffffffffffffffffffffffffffffffffffffffffff'' = 66 \<and> (take 2 ''02ffffffffffffffffffffffffffffffffffffffffffffffffffffffffffffffff'' = ''02'' \<or> take 2 ''02ffffffffffffffffffffffffffffffffffffffffffffffffffffffffffffffff'' = ''03''))
      \<or> (length ''02ffffffffffffffffffffffffffffffffffffffffffffffffffffffffffffffff'' = 130 \<and> take 2 ''02ffffffffffffffffffffffffffffffffffffffffffffffffffffffffffffffff'' = ''04'')
      \<or> length ''02ffffffffffffffffffffffffffffffffffffffffffffffffffffffffffffffff'' = 128"
    by simp
  have rejected: "secp256k1_Point_fromHex standIn
      (if length ''02ffffffffffffffffffffffffffffffffffffffffffffffffffffffffffffffff'' = 128 then ''04'' @ ''02ffffffffffffffffffffffffffffffffffffffffffffffffffffffffffffffff'' else ''02ffffffffffffffffffffffffffffffffffffffffffffffffffffffffffffffff'') = Inl ''bad point''"
    by (simp add: standIn_def generatorHex_True generatorHex_False)
  from ecdsa_decoder_failure_propagates [OF shape rejected, of None] rejected
  show ?thesis by simp
qed


text \<open>
  Claim C7. On every successful call of the secp256k1/ECDSA suite the input was
  decoded to a point and the result is that point serialized again: compressed, with
  the tag 'compressed', when the call gives no options or no output format;
  uncompressed, with the tag 'uncompressed', when that is the requested format. The
  result depends on the point and the options only: every other input of an accepted
  shape (compressed, uncompressed or 128-character body) that decodes to the same
  point returns the same result.
\<close>

theorem ecdsa_output_follows_request:
  assumes "validateAndNormalizePublicKey (EcdsaSecp256k1Suite P) pk opts = Inr r"
  shows "\<exists>pt. secp256k1_Point_fromHex P (if length pk = 128 then ''04'' @ pk else pk) = Inr pt
           \<and> (opts = None \<or> opts = Some \<lparr>outputFormat = None\<rparr>
                 \<or> opts = Some \<lparr>outputFormat = Some Compressed\<rparr> \<longrightarrow>
               r = \<lparr>publicKey = bytesToHex P (secp256k1_Point_toBytes P pt True),
                    format = Compressed\<rparr>)
           \<and> (opts = Some \<lparr>outputFormat = Some Uncompressed\<rparr> \<longrightarrow>
               r = \<lparr>publicKey = bytesToHex P (secp256k1_Point_toBytes P pt False),
                    format = Uncompressed\<rparr>)
           \<and> (\<forall>pk'. ((length pk' = 66 \<and> (take 2 pk' = ''02'' \<or> take 2 pk' = ''03''))
                       \<or> (length pk' = 130 \<and> take 2 pk' = ''04'') \<or> length pk' = 128)
                    \<and> secp256k1_Point_fromHex P
                         (if length pk' = 128 then ''04'' @ pk' else pk') = Inr pt \<longrightarrow>
                  validateAndNormalizePublicKey (EcdsaSecp256k1Suite P) pk' opts = Inr r)"
proof -
  from assms obtain inFmt where fmt: "inputFormat pk = Some inFmt"
    by (cases "inputFormat pk") (simp_all add: Ecdsa_validate_rejected)
  from assms Ecdsa_validate_accepted [OF fmt, of P opts]
  obtain pt where
    pt: "secp256k1_Point_fromHex P (if length pk = 128 then ''04'' @ pk else pk) = Inr pt"
    and r: "r = \<lparr>publicKey =
               bytesToHex P (secp256k1_Point_toBytes P pt (desiredFormat opts = Compressed)),
             format = desiredFormat opts\<rparr>"
    by (auto split: sum.splits)
  have same: "validateAndNormalizePublicKey (EcdsaSecp256k1Suite P) pk' opts = Inr r"
    if shape: "(length pk' = 66 \<and> (take 2 pk' = ''02'' \<or> take 2 pk' = ''03''))
               \<or> (length pk' = 130 \<and> take 2 pk' = ''04'') \<or> length pk' = 128"
      and dec: "secp256k1_Point_fromHex P (if length pk' = 128 then ''04'' @ pk' else pk') = Inr pt"
    for pk'
  proof -
    from shape obtain inFmt' where "inputFormat pk' = Some inFmt'"
      by (auto simp: inputFormat_by_shape)
    from Ecdsa_validate_accepted [OF this, of P opts] dec r show ?thesis by simp
  qed
  from r have compressed: "r = \<lparr>publicKey = bytesToHex P (secp256k1_Point_toBytes P pt True),
                    format = Compressed\<rparr>"
    if "opts = None \<or> opts = Some \<lparr>outputFormat = None\<rparr>
          \<or> opts = Some \<lparr>outputFormat = Some Compressed\<rparr>"
    using that by (auto simp: desiredFormat_def)
  from r have uncompressed: "r = \<lparr>publicKey = bytesToHex P (secp256k1_Point_toBytes P pt False),
                    format = Uncompressed\<rparr>"
    if "opts = Some \<lparr>outputFormat = Some Uncompressed\<rparr>"
    using that by (simp add: desiredFormat_def)
  from pt compressed uncompressed same show ?thesis by blast
qed

theorem ecdsa_output_follows_request_witness:
  "validateAndNormalizePublicKey (EcdsaSecp256k1Suite standIn) (generatorHex False) None =
     Inr \<lparr>publicKey = generatorHex True, format = Compressed\<rparr>
   \<and> validateAndNormalizePublicKey (EcdsaSecp256k1Suite standIn) (drop 2 (generatorHex False))
        None =
       Inr \<lparr>publicKey = generatorHex True, format = Compressed\<rparr>
   \<and> validateAndNormalizePublicKey (EcdsaSecp256k1Suite standIn) (generatorHex True)
        (Some \<lparr>outputFormat = Some Uncompressed\<rparr>) =
       Inr \<lparr>publicKey = generatorHex False, format = Uncompressed\<rparr>"
proof -
  have enc: "bytesToHex standIn (secp256k1_Point_toBytes standIn Generator True) = generatorHex True"
    "bytesToHex standIn (secp256k1_Point_toBytes standIn Generator False) = generatorHex False"
    by (simp_all add: standIn_def generatorHex_def)
  have dec: "secp256k1_Point_fromHex standIn (generatorHex True) = Inr Generator"
    "secp256k1_Point_fromHex standIn (generatorHex False) = Inr Generator"
    by (simp_all add: standIn_def)
  have body: "length (drop 2 (generatorHex False)) = 128"
    "''04'' @ drop 2 (generatorHex False) = generatorHex False"
    by (simp_all add: generatorHex_False)
  have lens: "length (generatorHex False) = 130" "take 2 (generatorHex False) = ''04''"
    "length (generatorHex True) = 66" "take 2 (generatorHex True) = ''02''"
    by (simp_all add: generatorHex_False generatorHex_True)
  have fmt: "inputFormat (generatorHex False) = Some Uncompressed"
    "inputFormat (generatorHex True) = Some Compressed"
    using lens by (simp_all add: inputFormat_by_shape)
  have run1: "validateAndNormalizePublicKey (EcdsaSecp256k1Suite standIn) (generatorHex False)
      None = Inr \<lparr>publicKey = generatorHex True, format = Compressed\<rparr>"
    using lens dec enc by (simp add: Ecdsa_validate_accepted [OF fmt(1)] desiredFormat_def)
  have run2: "validateAndNormalizePublicKey (EcdsaSecp256k1Suite standIn) (generatorHex True)
      (Some \<lparr>outputFormat = Some Uncompressed\<rparr>) =
      Inr \<lparr>publicKey = generatorHex False, format = Uncompressed\<rparr>"
    using lens dec enc by (simp add: Ecdsa_validate_accepted [OF fmt(2)] desiredFormat_def)
  from ecdsa_output_follows_request [OF run1] dec lens
  have "\<forall>pk'. ((length pk' = 66 \<and> (take 2 pk' = ''02'' \<or> take 2 pk' = ''03''))
                       \<or> (length pk' = 130 \<and> take 2 pk' = ''04'') \<or> length pk' = 128)
                    \<and> secp256k1_Point_fromHex standIn
                         (if length pk' = 128 then ''04'' @ pk' else pk') = Inr Generator \<longrightarrow>
                  validateAndNormalizePublicKey (EcdsaSecp256k1Suite standIn) pk' None =
                    Inr \<lparr>publicKey = generatorHex True, format = Compressed\<rparr>"
    by auto
  with body dec
  have run3: "validateAndNormalizePublicKey (EcdsaSecp256k1Suite standIn)
      (drop 2 (generatorHex False)) None =
      Inr \<lparr>publicKey = generatorHex True, format = Compressed\<rparr>"
    by simp
  from run1 run2 run3 show ?thesis by blast
qed

text \<open>
  Claim C10. The secp256k1/ECDSA suite compresses only when the requested output
  format is 'compressed'. A call on a valid key with the output format 'schnorr' does
  not fail: it returns the uncompressed encoding of the point, the same string a
  request for 'uncompressed' returns, with the format tag 'schnorr'. (At the
  generator the witness shows the 130 characters.)
\<close>

theorem ecdsa_schnorr_request_uncompressed:
  assumes "(length pk = 66 \<and> (take 2 pk = ''02'' \<or> take 2 pk = ''03''))
           \<or> (length pk = 130 \<and> take 2 pk = ''04'') \<or> length pk = 128"
    and "secp256k1_Point_fromHex P (if length pk = 128 then ''04'' @ pk else pk) = Inr pt"
  shows "validateAndNormalizePublicKey (EcdsaSecp256k1Suite P) pk
           (Some \<lparr>outputFormat = Some SchnorrFormat\<rparr>) =
           Inr \<lparr>publicKey = bytesToHex P (secp256k1_Point_toBytes P pt False),
                format = SchnorrFormat\<rparr>
         \<and> validateAndNormalizePublicKey (EcdsaSecp256k1Suite P) pk
           (Some \<lparr>outputFormat = Some Uncompressed\<rparr>) =
           Inr \<lparr>publicKey = bytesToHex P (secp256k1_Point_toBytes P pt False),
                format = Uncompressed\<rparr>
         \<and> formatTag SchnorrFormat = ''schnorr''"
proof -
  from assms(1) obtain inFmt where fmt: "inputFormat pk = Some inFmt"
    by (auto simp: inputFormat_by_shape)
  from assms(2) show ?thesis
    by (simp add: Ecdsa_validate_accepted [OF fmt] desiredFormat_def)
qed

theorem ecdsa_schnorr_request_uncompressed_witness:
  "validateAndNormalizePublicKey (EcdsaSecp256k1Suite standIn) (generatorHex True)
     (Some \<lparr>outputFormat = Some SchnorrFormat\<rparr>) =
     Inr \<lparr>publicKey = generatorHex False, format = SchnorrFormat\<rparr>
   \<and> length (generatorHex False) = 130"
proof -
  have shape: "(length (generatorHex True) = 66
        \<and> (take 2 (generatorHex True) = ''02'' \<or> take 2 (generatorHex True) = ''03''))
      \<or> (length (generatorHex True) = 130 \<and> take 2 (generatorHex True) = ''04'')
      \<or> length (generatorHex True) = 128"
    by (simp add: generatorHex_True)
  have dec: "secp256k1_Point_fromHex standIn
      (if length (generatorHex True) = 128 then ''04'' @ generatorHex True
       else generatorHex True) = Inr Generator"
    by (simp add: standIn_def generatorHex_True)
  have enc: "bytesToHex standIn (secp256k1_Point_toBytes standIn Generator False) =
      generatorHex False"
    by (simp add: standIn_def generatorHex_def)
  have len: "length (generatorHex False) = 130"
    by (simp add: generatorHex_False)
  from ecdsa_schnorr_request_uncompressed [OF shape dec] enc len show ?thesis by simp
qed


text \<open>
  Claim C6. Round trip on the secp256k1/ECDSA suite: normalize a valid compressed key
  with the output format 'uncompressed', then normalize the result with the output
  format 'compressed'. As stated, for every valid compressed key and with the original
  key as the result, the claim fails: the second call answers with the serializer's
  spelling of the key, and a key the decoder accepts in another spelling (upper-case
  digits) does not come back as it was given; see the counterexample below.

  Amended: let \<open>c\<close> have the compressed shape and let the decoder read it as the point
  \<open>pt\<close>; let the uncompressed serialization \<open>u\<close> of \<open>pt\<close> have 130 characters, start
  with 04 and decode to \<open>pt\<close>. Then the first call returns \<open>u\<close>, the second call
  returns the compressed serialization of \<open>pt\<close>, and the round trip yields the
  original key \<open>c\<close> exactly when \<open>c\<close> is itself the compressed serialization of \<open>pt\<close>.
\<close>

theorem ecdsa_round_trip:
  assumes "length c = 66" and "take 2 c = ''02'' \<or> take 2 c = ''03''"
    and "secp256k1_Point_fromHex P c = Inr pt"
    and "u = bytesToHex P (secp256k1_Point_toBytes P pt False)"
    and "length u = 130" and "take 2 u = ''04''"
    and "secp256k1_Point_fromHex P u = Inr pt"
  shows "validateAndNormalizePublicKey (EcdsaSecp256k1Suite P) c
           (Some \<lparr>outputFormat = Some Uncompressed\<rparr>) =
           Inr \<lparr>publicKey = u, format = Uncompressed\<rparr>
         \<and> validateAndNormalizePublicKey (EcdsaSecp256k1Suite P) u
           (Some \<lparr>outputFormat = Some Compressed\<rparr>) =
           Inr \<lparr>publicKey = bytesToHex P (secp256k1_Point_toBytes P pt True),
                format = Compressed\<rparr>
         \<and> (case validateAndNormalizePublicKey (EcdsaSecp256k1Suite P) c
                   (Some \<lparr>outputFormat = Some Uncompressed\<rparr>) of
              Inl err \<Rightarrow> Inl err
            | Inr r \<Rightarrow>
                validateAndNormalizePublicKey (EcdsaSecp256k1Suite P) (publicKey r)
                  (Some \<lparr>outputFormat = Some Compressed\<rparr>)) =
           Inr \<lparr>publicKey = bytesToHex P (secp256k1_Point_toBytes P pt True),
                format = Compressed\<rparr>
         \<and> ((case validateAndNormalizePublicKey (EcdsaSecp256k1Suite P) c
                   (Some \<lparr>outputFormat = Some Uncompressed\<rparr>) of
               Inl err \<Rightarrow> Inl err
             | Inr r \<Rightarrow>
                 validateAndNormalizePublicKey (EcdsaSecp256k1Suite P) (publicKey r)
                   (Some \<lparr>outputFormat = Some Compressed\<rparr>)) =
              Inr \<lparr>publicKey = c, format = Compressed\<rparr>
            \<longleftrightarrow> bytesToHex P (secp256k1_Point_toBytes P pt True) = c)"
proof -
  from assms(1,2) have "inputFormat c = Some Compressed"
    by (simp add: inputFormat_by_shape)
  from Ecdsa_validate_accepted [OF this, of P "Some \<lparr>outputFormat = Some Uncompressed\<rparr>"]
    assms(1,3,4)
  have there: "validateAndNormalizePublicKey (EcdsaSecp256k1Suite P) c
           (Some \<lparr>outputFormat = Some Uncompressed\<rparr>) =
           Inr \<lparr>publicKey = u, format = Uncompressed\<rparr>"
    by (simp add: desiredFormat_def)
  from assms(5,6) have "inputFormat u = Some Uncompressed"
    by (simp add: inputFormat_by_shape)
  from Ecdsa_validate_accepted [OF this, of P "Some \<lparr>outputFormat = Some Compressed\<rparr>"]
    assms(5,7)
  have ret: "validateAndNormalizePublicKey (EcdsaSecp256k1Suite P) u
           (Some \<lparr>outputFormat = Some Compressed\<rparr>) =
           Inr \<lparr>publicKey = bytesToHex P (secp256k1_Point_toBytes P pt True),
                format = Compressed\<rparr>"
    by (simp add: desiredFormat_def)
  from there ret show ?thesis by simp
qed

theorem ecdsa_round_trip_witness:
  "validateAndNormalizePublicKey (EcdsaSecp256k1Suite standIn) (generatorHex True)
     (Some \<lparr>outputFormat = Some Uncompressed\<rparr>) =
     Inr \<lparr>publicKey = generatorHex False, format = Uncompressed\<rparr>
   \<and> validateAndNormalizePublicKey (EcdsaSecp256k1Suite standIn) (generatorHex False)
     (Some \<lparr>outputFormat = Some Compressed\<rparr>) =
     Inr \<lparr>publicKey = generatorHex True, format = Compressed\<rparr>
   \<and> (case validateAndNormalizePublicKey (EcdsaSecp256k1Suite standIn) (generatorHex True)
             (Some \<lparr>outputFormat = Some Uncompressed\<rparr>) of
        Inl err \<Rightarrow> Inl err
      | Inr r \<Rightarrow>
          validateAndNormalizePublicKey (EcdsaSecp256k1Suite standIn) (publicKey r)
            (Some \<lparr>outputFormat = Some Compressed\<rparr>)) =
     Inr \<lparr>publicKey = generatorHex True, format = Compressed\<rparr>"
proof -
  have h1: "length (generatorHex True) = 66"
    and h2: "take 2 (generatorHex True) = ''02'' \<or> take 2 (generatorHex True) = ''03''"
    by (simp_all add: generatorHex_True)
  have h3: "secp256k1_Point_fromHex standIn (generatorHex True) = Inr Generator"
    by (simp add: standIn_def)
  have h4: "bytesToHex standIn (secp256k1_Point_toBytes standIn Generator True) =
      generatorHex True"
    by (simp add: standIn_def generatorHex_def)
  have h5: "generatorHex False =
      bytesToHex standIn (secp256k1_Point_toBytes standIn Generator False)"
    by (simp add: standIn_def generatorHex_def)
  have h6: "length (generatorHex False) = 130" and h7: "take 2 (generatorHex False) = ''04''"
    by (simp_all add: generatorHex_False)
  have h8: "secp256k1_Point_fromHex standIn (generatorHex False) = Inr Generator"
    by (simp add: standIn_def)
  from ecdsa_round_trip [OF h1 h2 h3 h5 h6 h7 h8] h4 show ?thesis by simp
qed

text \<open>
  The counterexample to C6 as stated: the generator's compressed key written with
  upper-case digits has the compressed shape and is decoded to the generator, so it is
  a valid compressed key; the round trip returns the key in lower-case digits, which
  is not the string that was given.
\<close>

theorem ecdsa_round_trip_counterexample:
  "length ''0279BE667EF9DCBBAC55A06295CE870B07029BFCDB2DCE28D959F2815B16F81798'' = 66
   \<and> take 2 ''0279BE667EF9DCBBAC55A06295CE870B07029BFCDB2DCE28D959F2815B16F81798'' = ''02''
   \<and> secp256k1_Point_fromHex standInAnyCase ''0279BE667EF9DCBBAC55A06295CE870B07029BFCDB2DCE28D959F2815B16F81798'' = Inr Generator
   \<and> (case validateAndNormalizePublicKey (EcdsaSecp256k1Suite standInAnyCase) ''0279BE667EF9DCBBAC55A06295CE870B07029BFCDB2DCE28D959F2815B16F81798''
             (Some \<lparr>outputFormat = Some Uncompressed\<rparr>) of
        Inl err \<Rightarrow> Inl err
      | Inr r \<Rightarrow>
          validateAndNormalizePublicKey (EcdsaSecp256k1Suite standInAnyCase) (publicKey r)
            (Some \<lparr>outputFormat = Some Compressed\<rparr>)) =
     Inr \<lparr>publicKey = ''0279be667ef9dcbbac55a06295ce870b07029bfcdb2dce28d959f2815b16f81798'', format = Compressed\<rparr>
   \<and> (case validateAndNormalizePublicKey (EcdsaSecp256k1Suite standInAnyCase) ''0279BE667EF9DCBBAC55A06295CE870B07029BFCDB2DCE28D959F2815B16F81798''
             (Some \<lparr>outputFormat = Some Uncompressed\<rparr>) of
        Inl err \<Rightarrow> Inl err
      | Inr r \<Rightarrow>
          validateAndNormalizePublicKey (EcdsaSecp256k1Suite standInAnyCase) (publicKey r)
            (Some \<lparr>outputFormat = Some Compressed\<rparr>)) \<noteq>
     Inr \<lparr>publicKey = ''0279BE667EF9DCBBAC55A06295CE870B07029BFCDB2DCE28D959F2815B16F81798'', format = Compressed\<rparr>"
proof -
  have shape: "length ''0279BE667EF9DCBBAC55A06295CE870B07029BFCDB2DCE28D959F2815B16F81798'' = 66 \<and> take 2 ''0279BE667EF9DCBBAC55A06295CE870B07029BFCDB2DCE28D959F2815B16F81798'' = ''02''"
    by simp
  have fmtC: "inputFormat ''0279BE667EF9DCBBAC55A06295CE870B07029BFCDB2DCE28D959F2815B16F81798'' = Some Compressed"
    by (simp add: inputFormat_by_shape)
  have decC: "secp256k1_Point_fromHex standInAnyCase ''0279BE667EF9DCBBAC55A06295CE870B07029BFCDB2DCE28D959F2815B16F81798'' = Inr Generator"
    by (simp add: standInAnyCase_def standIn_def lowerHexDigit_def generatorHex_True)
  have encF: "bytesToHex standInAnyCase (secp256k1_Point_toBytes standInAnyCase Generator False) =
      generatorHex False"
    by (simp add: standInAnyCase_def standIn_def generatorHex_def)
  have encT: "bytesToHex standInAnyCase (secp256k1_Point_toBytes standInAnyCase Generator True) =
      ''0279be667ef9dcbbac55a06295ce870b07029bfcdb2dce28d959f2815b16f81798''"
    by (simp add: standInAnyCase_def standIn_def generatorHex_True [unfolded generatorHex_def])
  have fmtU: "inputFormat (generatorHex False) = Some Uncompressed"
    by (simp add: inputFormat_by_shape generatorHex_False)
  have lenU: "length (generatorHex False) = 130"
    by (simp add: generatorHex_False)
  have decU: "secp256k1_Point_fromHex standInAnyCase (generatorHex False) = Inr Generator"
    by (simp add: standInAnyCase_def standIn_def lowerHexDigit_def generatorHex_True
          generatorHex_False)
  have first: "validateAndNormalizePublicKey (EcdsaSecp256k1Suite standInAnyCase) ''0279BE667EF9DCBBAC55A06295CE870B07029BFCDB2DCE28D959F2815B16F81798''
      (Some \<lparr>outputFormat = Some Uncompressed\<rparr>) =
      Inr \<lparr>publicKey = generatorHex False, format = Uncompressed\<rparr>"
    using decC encF by (simp add: Ecdsa_validate_accepted [OF fmtC] desiredFormat_def)
  have second: "validateAndNormalizePublicKey (EcdsaSecp256k1Suite standInAnyCase)
      (generatorHex False) (Some \<lparr>outputFormat = Some Compressed\<rparr>) =
      Inr \<lparr>publicKey = ''0279be667ef9dcbbac55a06295ce870b07029bfcdb2dce28d959f2815b16f81798'', format = Compressed\<rparr>"
    using decU encT lenU by (simp add: Ecdsa_validate_accepted [OF fmtU] desiredFormat_def)
  from shape decC first second show ?thesis by simp
qed


section \<open>Signing and verifying\<close>

lemma suite_of_getCryptoSuite:
  assumes "getCryptoSuite P \<lparr>curve = c, scheme = s\<rparr> = Inr suite"
  shows "suite = EcdsaSecp256k1Suite P \<or> suite = SchnorrSecp256k1Suite P
         \<or> suite = EddsaEd25519Suite P"
  using assms by (cases c; cases s) (auto simp: getCryptoSuite_def)

text \<open>
  Claim C8. Each suite's \<open>verify\<close> hands its three arguments to the verifier of the
  imported primitives and returns what that returns: when the verifier answers with a
  boolean \<open>b\<close> (\<open>False\<close> for a well-formed signature that does not match), \<open>verify\<close>
  returns \<open>b\<close> and raises nothing. When the primitive called by \<open>verify\<close> or by \<open>sign\<close>
  throws \<open>e\<close>, the caller gets \<open>e\<close> itself. No suite that the factory returns ever
  fails in \<open>sign\<close> or \<open>verify\<close> with a \<open>KeyValidationError\<close>.
\<close>

theorem sign_verify_pass_through:
  "(secp256k1_verify P sg h pk = Inr b \<longrightarrow> verify (EcdsaSecp256k1Suite P) sg h pk = Inr b)
   \<and> (schnorr_verify P sg h pk = Inr b \<longrightarrow> verify (SchnorrSecp256k1Suite P) sg h pk = Inr b)
   \<and> (ed25519_verify P sg h pk = Inr b \<longrightarrow> verify (EddsaEd25519Suite P) sg h pk = Inr b)
   \<and> (secp256k1_verify P sg h pk = Inl e \<longrightarrow>
        verify (EcdsaSecp256k1Suite P) sg h pk = Inl (ProviderError e))
   \<and> (schnorr_verify P sg h pk = Inl e \<longrightarrow>
        verify (SchnorrSecp256k1Suite P) sg h pk = Inl (ProviderError e))
   \<and> (ed25519_verify P sg h pk = Inl e \<longrightarrow>
        verify (EddsaEd25519Suite P) sg h pk = Inl (ProviderError e))
   \<and> (secp256k1_sign P h k = Inl e \<longrightarrow> sign (EcdsaSecp256k1Suite P) k h = Inl (ProviderError e))
   \<and> (schnorr_sign P h k = Inl e \<longrightarrow> sign (SchnorrSecp256k1Suite P) k h = Inl (ProviderError e))
   \<and> (ed25519_sign P h k = Inl e \<longrightarrow> sign (EddsaEd25519Suite P) k h = Inl (ProviderError e))
   \<and> (\<forall>c s suite msg. getCryptoSuite P \<lparr>curve = c, scheme = s\<rparr> = Inr suite \<longrightarrow>
         verify suite sg h pk \<noteq> Inl (KeyValidationError msg)
         \<and> sign suite k h \<noteq> Inl (KeyValidationError msg))"
proof -
  have never: "verify suite sg h pk \<noteq> Inl (KeyValidationError msg)
         \<and> sign suite k h \<noteq> Inl (KeyValidationError msg)"
    if "getCryptoSuite P \<lparr>curve = c, scheme = s\<rparr> = Inr suite" for c s suite msg
    using suite_of_getCryptoSuite [OF that]
    by (auto simp: Ecdsa_verify_def Schnorr_verify_def Eddsa_verify_def
          Ecdsa_sign_def Schnorr_sign_def Eddsa_sign_def split: sum.splits)
  have direct:
    "(secp256k1_verify P sg h pk = Inr b \<longrightarrow> verify (EcdsaSecp256k1Suite P) sg h pk = Inr b)
   \<and> (schnorr_verify P sg h pk = Inr b \<longrightarrow> verify (SchnorrSecp256k1Suite P) sg h pk = Inr b)
   \<and> (ed25519_verify P sg h pk = Inr b \<longrightarrow> verify (EddsaEd25519Suite P) sg h pk = Inr b)
   \<and> (secp256k1_verify P sg h pk = Inl e \<longrightarrow>
        verify (EcdsaSecp256k1Suite P) sg h pk = Inl (ProviderError e))
   \<and> (schnorr_verify P sg h pk = Inl e \<longrightarrow>
        verify (SchnorrSecp256k1Suite P) sg h pk = Inl (ProviderError e))
   \<and> (ed25519_verify P sg h pk = Inl e \<longrightarrow>
        verify (EddsaEd25519Suite P) sg h pk = Inl (ProviderError e))
   \<and> (secp256k1_sign P h k = Inl e \<longrightarrow> sign (EcdsaSecp256k1Suite P) k h = Inl (ProviderError e))
   \<and> (schnorr_sign P h k = Inl e \<longrightarrow> sign (SchnorrSecp256k1Suite P) k h = Inl (ProviderError e))
   \<and> (ed25519_sign P h k = Inl e \<longrightarrow> sign (EddsaEd25519Suite P) k h = Inl (ProviderError e))"
    by (simp add: Ecdsa_verify_def Schnorr_verify_def Eddsa_verify_def
          Ecdsa_sign_def Schnorr_sign_def Eddsa_sign_def)
  from direct never show ?thesis by blast
qed

theorem sign_verify_pass_through_witness:
  "verify (EcdsaSecp256k1Suite standIn) (replicate 128 CHR ''0'') ''00'' (generatorHex True) =
     Inr False
   \<and> verify (EddsaEd25519Suite standIn) ''abcd'' ''00'' ed25519BaseHex =
       Inl (ProviderError ''bad signature'')
   \<and> sign (SchnorrSecp256k1Suite standIn) ''01'' ''00'' = Inl (ProviderError ''bad private key'')"
proof -
  have v1: "secp256k1_verify standIn (replicate 128 CHR ''0'') ''00'' (generatorHex True) =
      Inr False"
    by (simp add: standIn_def)
  have v2: "ed25519_verify standIn ''abcd'' ''00'' ed25519BaseHex = Inl ''bad signature''"
    by (simp add: standIn_def)
  have s1: "schnorr_sign standIn ''00'' ''01'' = Inl ''bad private key''"
    by (simp add: standIn_def)
  from sign_verify_pass_through
         [of standIn "replicate 128 CHR ''0''" "''00''" "generatorHex True" False] v1
  have 1: "verify (EcdsaSecp256k1Suite standIn) (replicate 128 CHR ''0'') ''00''
      (generatorHex True) = Inr False"
    by blast
  from sign_verify_pass_through
         [of standIn "''abcd''" "''00''" ed25519BaseHex _ "''bad signature''"] v2
  have 2: "verify (EddsaEd25519Suite standIn) ''abcd'' ''00'' ed25519BaseHex =
       Inl (ProviderError ''bad signature'')"
    by blast
  from sign_verify_pass_through [of standIn _ "''00''" _ _ "''bad private key''" "''01''"] s1
  have 3: "sign (SchnorrSecp256k1Suite standIn) ''01'' ''00'' =
      Inl (ProviderError ''bad private key'')"
    by blast
  from 1 2 3 show ?thesis by blast
qed

end
